theory Spec2Isabelle
  imports Main
begin

section \<open>The admin panel's API client: token store and request gateway\<close>

text \<open>
  A shallow embedding of \<^verbatim>\<open>revcopy-admin-main/src/lib/api.ts\<close>: the class
  \<^verbatim>\<open>TokenManager\<close> (the token store kept in the browser's \<^verbatim>\<open>localStorage\<close>) and the
  methods \<^verbatim>\<open>request\<close>, \<^verbatim>\<open>handleAuthError\<close> and \<^verbatim>\<open>login\<close> of the class \<^verbatim>\<open>ApiClient\<close>.

  What the browser holds is a record, passed through every operation and returned updated:
  the contents of \<^verbatim>\<open>localStorage\<close>, the value of \<^verbatim>\<open>window.location.href\<close>, the reading of
  \<^verbatim>\<open>Date.now()\<close>, and the list of \<^verbatim>\<open>fetch\<close> calls issued so far. The server is a function from
  the calls seen so far and the current call to the way the promise settles. One call of
  \<^verbatim>\<open>request\<close> is modelled on its own: no other task touches the storage while it waits, and
  every \<^verbatim>\<open>fetch\<close> settles. Reading and writing \<^verbatim>\<open>localStorage\<close> never fails. Output to
  the console is not modelled.
\<close>

subsection \<open>JavaScript values\<close>

text \<open>
  A value thrown: an instance of \<^verbatim>\<open>Error\<close> with its message, or any other value
  (what \<^verbatim>\<open>error instanceof Error\<close> tells apart in the handler of \<^verbatim>\<open>request\<close>).
\<close>

datatype js_exn = Error string | NonError

datatype 'a js_result = Throws js_exn | Returns 'a

text \<open>
  What \<^verbatim>\<open>response.json()\<close> yields where the source types it \<^verbatim>\<open>any\<close>. Numbers are
  integers: fractions and exponents are IEEE doubles in the source and are left out.
  \<^verbatim>\<open>undefined\<close> is not a JSON value; where a property read can give it, the model uses
  \<open>None\<close>.
\<close>

datatype jsvalue =
    JNull
  | JBool bool
  | JNum int
  | JStr string
  | JArr "jsvalue list"
  | JObj "(string \<times> jsvalue) list"

subsection \<open>Numbers and strings\<close>

definition digit_char :: "nat \<Rightarrow> char" where
  "digit_char d = ''0123456789'' ! d"

function digits :: "nat \<Rightarrow> string" where
  "digits n = (if n < 10 then [digit_char n] else digits (n div 10) @ [digit_char (n mod 10)])"
  by pat_completeness auto
termination
  by (relation "measure (\<lambda>n. n)") auto

declare digits.simps [simp del]

text \<open>
  \<^verbatim>\<open>Number.prototype.toString()\<close> on an integer: its decimal digits. (The source's doubles
  print so below \<open>10\<^sup>2\<^sup>1\<close>; a time in milliseconds is far below.)
\<close>

definition Number_toString :: "int \<Rightarrow> string" where
  "Number_toString i = (if i < 0 then CHR ''-'' # digits (nat (- i)) else digits (nat i))"

text \<open>
  \<^verbatim>\<open>parseInt(string)\<close> with no radix, after ECMAScript: leading white space is dropped
  (the ASCII white space here: a \<open>string\<close> is a list of bytes), then an optional sign, then
  \<^verbatim>\<open>0x\<close> or \<^verbatim>\<open>0X\<close> selects radix 16 and anything else radix 10; the longest prefix of digits of
  that radix is the number, and no digit at all gives \<^verbatim>\<open>NaN\<close>, which is \<open>None\<close>.
  The number is taken exactly; the source rounds it to a double, which does not change
  how it compares with a time below \<open>2\<^sup>5\<^sup>3\<close>.
\<close>

definition isWhiteSpace :: "char \<Rightarrow> bool" where
  "isWhiteSpace c \<longleftrightarrow> c \<in> set [CHR 0x09, CHR 0x0A, CHR 0x0B, CHR 0x0C, CHR 0x0D, CHR 0x20]"

definition digitValue :: "char \<Rightarrow> nat option" where
  "digitValue c =
     (let n = (of_char c :: nat) in
      if 48 \<le> n \<and> n \<le> 57 then Some (n - 48)
      else if 97 \<le> n \<and> n \<le> 122 then Some (n - 87)
      else if 65 \<le> n \<and> n \<le> 90 then Some (n - 55)
      else None)"

definition isRadixDigit :: "nat \<Rightarrow> char \<Rightarrow> bool" where
  "isRadixDigit R c = (case digitValue c of None \<Rightarrow> False | Some v \<Rightarrow> v < R)"

definition radixValue :: "nat \<Rightarrow> string \<Rightarrow> nat" where
  "radixValue R Z = foldl (\<lambda>a c. a * R + (case digitValue c of None \<Rightarrow> 0 | Some v \<Rightarrow> v)) 0 Z"

definition stripSign :: "string \<Rightarrow> int \<times> string" where
  "stripSign S =
     (case S of
        [] \<Rightarrow> (1, [])
      | c # r \<Rightarrow> if c = CHR ''-'' then (- 1, r) else if c = CHR ''+'' then (1, r) else (1, S))"

definition stripPrefix :: "string \<Rightarrow> nat \<times> string" where
  "stripPrefix S =
     (case S of
        a # b # r \<Rightarrow>
          if a = CHR ''0'' \<and> (b = CHR ''x'' \<or> b = CHR ''X'') then (16, r) else (10, S)
      | _ \<Rightarrow> (10, S))"

definition parseInt :: "string \<Rightarrow> int option" where
  "parseInt inputString =
     (let (sign, S) = stripSign (dropWhile isWhiteSpace inputString);
          (R, S') = stripPrefix S;
          Z = takeWhile (isRadixDigit R) S'
      in if Z = [] then None else Some (sign * int (radixValue R Z)))"

text \<open>
  \<^verbatim>\<open>Array.prototype.join\<close> with its default separator, and the conversion to a string that
  \<^verbatim>\<open>new Error(value)\<close> applies to its argument: an array prints its elements joined
  (\<^verbatim>\<open>null\<close> as nothing), an object prints \<^verbatim>\<open>[object Object]\<close> (an object that carries a
  \<^verbatim>\<open>toString\<close> or \<^verbatim>\<open>valueOf\<close> property of its own is left out).
\<close>

definition join :: "string list \<Rightarrow> string" where
  "join xs = (case xs of [] \<Rightarrow> [] | x # r \<Rightarrow> foldl (\<lambda>a s. a @ '','' @ s) x r)"

fun ToString :: "jsvalue \<Rightarrow> string" where
  "ToString JNull = ''null''"
| "ToString (JBool b) = (if b then ''true'' else ''false'')"
| "ToString (JNum n) = Number_toString n"
| "ToString (JStr s) = s"
| "ToString (JArr xs) = join (map (\<lambda>x. if x = JNull then [] else ToString x) xs)"
| "ToString (JObj kvs) = ''[object Object]''"

text \<open>What \<^verbatim>\<open>a || b\<close> tests: \<^verbatim>\<open>null\<close>, \<^verbatim>\<open>false\<close>, \<^verbatim>\<open>0\<close> and the empty string are falsy.\<close>

fun truthy :: "jsvalue \<Rightarrow> bool" where
  "truthy JNull = False"
| "truthy (JBool b) = b"
| "truthy (JNum n) = (n \<noteq> 0)"
| "truthy (JStr s) = (s \<noteq> [])"
| "truthy (JArr xs) = True"
| "truthy (JObj kvs) = True"

text \<open>
  A property read \<^verbatim>\<open>value.name\<close> on a parsed JSON value, for a name such as \<^verbatim>\<open>detail\<close>
  that no prototype defines: a \<^verbatim>\<open>TypeError\<close> on \<^verbatim>\<open>null\<close>, the member of an object (the
  last one when the text repeated the key), and \<^verbatim>\<open>undefined\<close> (\<open>None\<close>) otherwise.
\<close>

definition getProperty :: "jsvalue \<Rightarrow> string \<Rightarrow> jsvalue option js_result" where
  "getProperty v name =
     (case v of
        JNull \<Rightarrow>
          Throws (Error (''Cannot read properties of null (reading '' @ [CHR 0x27] @ name @ [CHR 0x27] @ '')''))
      | JObj kvs \<Rightarrow> Returns (map_of (rev kvs) name)
      | _ \<Rightarrow> Returns None)"

text \<open>\<^verbatim>\<open>JSON.stringify\<close> on a value built from strings, numbers, arrays and objects.\<close>

definition hex_char :: "nat \<Rightarrow> char" where
  "hex_char d = ''0123456789abcdef'' ! d"

definition escape_char :: "char \<Rightarrow> string" where
  "escape_char c =
     (let n = (of_char c :: nat) in
      if n = 0x08 then [CHR 0x5C, CHR ''b'']
      else if n = 0x09 then [CHR 0x5C, CHR ''t'']
      else if n = 0x0A then [CHR 0x5C, CHR ''n'']
      else if n = 0x0C then [CHR 0x5C, CHR ''f'']
      else if n = 0x0D then [CHR 0x5C, CHR ''r'']
      else if n = 0x22 then [CHR 0x5C, CHR 0x22]
      else if n = 0x5C then [CHR 0x5C, CHR 0x5C]
      else if n < 0x20 then
        [CHR 0x5C, CHR ''u'', CHR ''0'', CHR ''0'', hex_char (n div 16), hex_char (n mod 16)]
      else [c])"

definition QuoteJSONString :: "string \<Rightarrow> string" where
  "QuoteJSONString s = [CHR 0x22] @ concat (map escape_char s) @ [CHR 0x22]"

fun JSON_stringify :: "jsvalue \<Rightarrow> string" where
  "JSON_stringify JNull = ''null''"
| "JSON_stringify (JBool b) = (if b then ''true'' else ''false'')"
| "JSON_stringify (JNum n) = Number_toString n"
| "JSON_stringify (JStr s) = QuoteJSONString s"
| "JSON_stringify (JArr xs) = ''['' @ join (map JSON_stringify xs) @ '']''"
| "JSON_stringify (JObj kvs) =
     ''{'' @ join (map (\<lambda>kv. QuoteJSONString (fst kv) @ '':'' @ JSON_stringify (snd kv)) kvs) @ ''}''"

subsection \<open>The browser and the network\<close>

text \<open>
  The second argument of \<^verbatim>\<open>fetch\<close>: the members the source sets or passes on
  (\<open>http_method\<close> is its member \<^verbatim>\<open>method\<close>). \<open>signal\<close> is
  the bound in milliseconds of \<^verbatim>\<open>AbortSignal.timeout\<close>, \<open>None\<close> when no signal is given.
  \<open>headers\<close> is the plain object the source builds, from header name to value.
\<close>

record RequestInit =
  http_method :: "string option"
  headers :: "string \<rightharpoonup> string"
  body :: "string option"
  signal :: "nat option"

type_synonym FetchCall = "string \<times> RequestInit"

record world =
  localStorage :: "string \<rightharpoonup> string"
  location_href :: string
  now :: int
  fetch_log :: "FetchCall list"

text \<open>
  A response as the source reads it: the status, the status text, and what
  \<^verbatim>\<open>response.json()\<close> does, which is to throw or to return the parsed body.
  \<^verbatim>\<open>response.ok\<close> is the status being in the range 200 to 299.
\<close>

record 'a Response =
  status :: nat
  statusText :: string
  json :: "'a js_result"

definition ok :: "'a Response \<Rightarrow> bool" where
  "ok response \<longleftrightarrow> 200 \<le> status response \<and> status response \<le> 299"

datatype 'a settled = Rejected js_exn | Resolved "'a Response"

record AuthResponse =
  access_token :: string
  refresh_token :: string
  token_type :: string
  expires_in :: int

text \<open>
  The server, with the time each call takes in milliseconds. The body of a response has
  the type the source gives it where it reads it: \<^verbatim>\<open>any\<close> in \<^verbatim>\<open>request\<close> (\<open>api\<close>), and
  \<^verbatim>\<open>AuthResponse\<close> in \<^verbatim>\<open>handleAuthError\<close> (\<open>auth\<close>), whose
  \<^verbatim>\<open>const authResponse: AuthResponse = await response.json()\<close> is not checked at run time.
  A time-out of the signal is a rejection like any other failure of the transport.
\<close>

record network =
  api :: "FetchCall list \<Rightarrow> FetchCall \<Rightarrow> nat \<times> jsvalue settled"
  auth :: "FetchCall list \<Rightarrow> FetchCall \<Rightarrow> nat \<times> AuthResponse settled"

text \<open>The browser once a call has settled: the call is on record and the clock has moved.\<close>

definition after_fetch :: "string \<Rightarrow> RequestInit \<Rightarrow> nat \<Rightarrow> world \<Rightarrow> world" where
  "after_fetch url init latency w =
     w\<lparr>now := now w + int latency, fetch_log := fetch_log w @ [(url, init)]\<rparr>"

definition fetch ::
  "(FetchCall list \<Rightarrow> FetchCall \<Rightarrow> nat \<times> 'a settled) \<Rightarrow> string \<Rightarrow> RequestInit \<Rightarrow> world
     \<Rightarrow> 'a settled \<times> world" where
  "fetch server url init w =
     (let (latency, outcome) = server (fetch_log w) (url, init)
      in (outcome, after_fetch url init latency w))"

subsection \<open>TokenManager\<close>

definition ACCESS_TOKEN_KEY :: string where
  "ACCESS_TOKEN_KEY = ''admin_access_token''"

definition REFRESH_TOKEN_KEY :: string where
  "REFRESH_TOKEN_KEY = ''admin_refresh_token''"

definition TOKEN_EXPIRY_KEY :: string where
  "TOKEN_EXPIRY_KEY = ''admin_token_expiry''"

definition setItem :: "string \<Rightarrow> string \<Rightarrow> world \<Rightarrow> world" where
  "setItem k v w = w\<lparr>localStorage := (localStorage w)(k \<mapsto> v)\<rparr>"

definition removeItem :: "string \<Rightarrow> world \<Rightarrow> world" where
  "removeItem k w = w\<lparr>localStorage := (localStorage w)(k := None)\<rparr>"

definition getItem :: "string \<Rightarrow> world \<Rightarrow> string option" where
  "getItem k w = localStorage w k"

definition setTokens :: "AuthResponse \<Rightarrow> world \<Rightarrow> world" where
  "setTokens authResponse w =
     (let expiryTime = now w + expires_in authResponse * 1000
      in setItem TOKEN_EXPIRY_KEY (Number_toString expiryTime)
           (setItem REFRESH_TOKEN_KEY (refresh_token authResponse)
             (setItem ACCESS_TOKEN_KEY (access_token authResponse) w)))"

definition getAccessToken :: "world \<Rightarrow> string option" where
  "getAccessToken w = getItem ACCESS_TOKEN_KEY w"

definition getRefreshToken :: "world \<Rightarrow> string option" where
  "getRefreshToken w = getItem REFRESH_TOKEN_KEY w"

text \<open>
  \<^verbatim>\<open>if (!expiryTime) return true\<close> takes \<^verbatim>\<open>null\<close> and the empty string, the two falsy
  values of a \<^verbatim>\<open>string | null\<close>. \<^verbatim>\<open>Date.now() >= parseInt(expiryTime)\<close> is false when
  \<^verbatim>\<open>parseInt\<close> gives \<^verbatim>\<open>NaN\<close>: every comparison with \<^verbatim>\<open>NaN\<close> is.
\<close>

definition isTokenExpired :: "world \<Rightarrow> bool" where
  "isTokenExpired w =
     (case getItem TOKEN_EXPIRY_KEY w of
        None \<Rightarrow> True
      | Some expiryTime \<Rightarrow>
          if expiryTime = [] then True
          else (case parseInt expiryTime of None \<Rightarrow> False | Some e \<Rightarrow> now w \<ge> e))"

definition clearTokens :: "world \<Rightarrow> world" where
  "clearTokens w =
     removeItem TOKEN_EXPIRY_KEY (removeItem REFRESH_TOKEN_KEY (removeItem ACCESS_TOKEN_KEY w))"

definition isAuthenticated :: "world \<Rightarrow> bool" where
  "isAuthenticated w = (let token = getAccessToken w in token \<noteq> None \<and> \<not> isTokenExpired w)"

subsection \<open>ApiClient\<close>

record 'a ApiResponse =
  success :: bool
  data :: "'a option"
  message :: "string option"
  errors :: "string list option"

definition BASE_URL :: string where
  "BASE_URL = ''http://localhost:8000''"

definition TIMEOUT :: nat where
  "TIMEOUT = 30000"

record ApiClient =
  baseURL :: string
  timeout :: nat

definition new_ApiClient :: ApiClient where
  "new_ApiClient = \<lparr>baseURL = BASE_URL, timeout = TIMEOUT\<rparr>"

definition navigate :: "string \<Rightarrow> world \<Rightarrow> world" where
  "navigate href w = w\<lparr>location_href := href\<rparr>"

text \<open>
  The \<^verbatim>\<open>try\<close> block of \<^verbatim>\<open>handleAuthError\<close>, entered with a truthy refresh token: one
  \<^verbatim>\<open>POST\<close> to the refresh endpoint, with no \<^verbatim>\<open>Authorization\<close> header and no signal.
\<close>

definition refresh_init :: "string \<Rightarrow> RequestInit" where
  "refresh_init refreshToken =
     \<lparr>http_method = Some ''POST'',
      headers = [''Content-Type'' \<mapsto> ''application/json''],
      body = Some (JSON_stringify (JObj [(''refresh_token'', JStr refreshToken)])),
      signal = None\<rparr>"

definition refresh_url :: "ApiClient \<Rightarrow> string" where
  "refresh_url this = baseURL this @ ''/api/v1/auth/refresh''"

definition handleAuthError_try ::
  "ApiClient \<Rightarrow> network \<Rightarrow> string \<Rightarrow> world \<Rightarrow> unit js_result \<times> world" where
  "handleAuthError_try this net refreshToken w =
     (let (outcome, w1) = fetch (auth net) (refresh_url this) (refresh_init refreshToken) w
      in case outcome of
           Rejected error \<Rightarrow> (Throws error, w1)
         | Resolved response \<Rightarrow>
             if ok response then
               (case json response of
                  Throws error \<Rightarrow> (Throws error, w1)
                | Returns authResponse \<Rightarrow> (Returns (), setTokens authResponse w1))
             else (Returns (), navigate ''/login'' (clearTokens w1)))"

text \<open>
  \<^verbatim>\<open>if (!refreshToken)\<close> takes \<^verbatim>\<open>null\<close> and the empty string. The \<^verbatim>\<open>catch\<close> clause clears
  the store and assigns the login route; assigning \<^verbatim>\<open>window.location.href\<close> starts a
  navigation and the script runs on.
\<close>

definition handleAuthError :: "ApiClient \<Rightarrow> network \<Rightarrow> world \<Rightarrow> world" where
  "handleAuthError this net w =
     (case getRefreshToken w of
        None \<Rightarrow> navigate ''/login'' (clearTokens w)
      | Some refreshToken \<Rightarrow>
          if refreshToken = [] then navigate ''/login'' (clearTokens w)
          else (case handleAuthError_try this net refreshToken w of
                  (Throws error, w') \<Rightarrow> navigate ''/login'' (clearTokens w')
                | (Returns u, w') \<Rightarrow> w'))"

text \<open>
  The headers of \<^verbatim>\<open>request\<close>: the caller's over the default content type, then the bearer
  token over both when \<^verbatim>\<open>token && !TokenManager.isTokenExpired()\<close>, which a \<^verbatim>\<open>null\<close> and
  an empty token fail.
\<close>

definition request_headers :: "RequestInit \<Rightarrow> world \<Rightarrow> string \<rightharpoonup> string" where
  "request_headers options w =
     (let hs = [''Content-Type'' \<mapsto> ''application/json''] ++ headers options;
          token = getAccessToken w
      in case token of
           None \<Rightarrow> hs
         | Some t \<Rightarrow>
             if t \<noteq> [] \<and> \<not> isTokenExpired w then hs(''Authorization'' \<mapsto> ''Bearer '' @ t)
             else hs)"

definition request_init :: "ApiClient \<Rightarrow> RequestInit \<Rightarrow> world \<Rightarrow> RequestInit" where
  "request_init this options w =
     options\<lparr>headers := request_headers options w, signal := Some (timeout this)\<rparr>"

text \<open>
  The \<^verbatim>\<open>try\<close> block of \<^verbatim>\<open>request\<close>. Each \<^verbatim>\<open>throw\<close>, each rejected promise and each
  failing property read is a \<open>Throws\<close>.
\<close>

definition http_error_message :: "jsvalue Response \<Rightarrow> jsvalue option \<Rightarrow> string" where
  "http_error_message response detail =
     (case detail of
        None \<Rightarrow> ''HTTP '' @ Number_toString (int (status response)) @ '': '' @ statusText response
      | Some d \<Rightarrow>
          if truthy d then ToString d
          else ''HTTP '' @ Number_toString (int (status response)) @ '': '' @ statusText response)"

definition request_try ::
  "ApiClient \<Rightarrow> network \<Rightarrow> string \<Rightarrow> RequestInit \<Rightarrow> world
     \<Rightarrow> jsvalue ApiResponse js_result \<times> world" where
  "request_try this net endpoint options w =
     (let url = baseURL this @ endpoint;
          (outcome, w1) = fetch (api net) url (request_init this options w) w
      in case outcome of
           Rejected error \<Rightarrow> (Throws error, w1)
         | Resolved response \<Rightarrow>
             if status response = 401 then
               (Throws (Error ''Authentication required''), handleAuthError this net w1)
             else
               (case json response of
                  Throws error \<Rightarrow> (Throws error, w1)
                | Returns d \<Rightarrow>
                    if \<not> ok response then
                      (case getProperty d ''detail'' of
                         Throws error \<Rightarrow> (Throws error, w1)
                       | Returns detail \<Rightarrow>
                           (Throws (Error (http_error_message response detail)), w1))
                    else
                      (Returns \<lparr>success = True, data = Some d, message = None, errors = None\<rparr>,
                       w1)))"

definition request ::
  "ApiClient \<Rightarrow> network \<Rightarrow> string \<Rightarrow> RequestInit \<Rightarrow> world \<Rightarrow> jsvalue ApiResponse \<times> world" where
  "request this net endpoint options w =
     (case request_try this net endpoint options w of
        (Returns envelope, w') \<Rightarrow> (envelope, w')
      | (Throws error, w') \<Rightarrow>
          (\<lparr>success = False, data = None,
            message = Some (case error of Error m \<Rightarrow> m | NonError \<Rightarrow> ''Unknown error occurred''),
            errors = None\<rparr>, w'))"

record LoginCredentials =
  email :: string
  password :: string

definition login_init :: "LoginCredentials \<Rightarrow> RequestInit" where
  "login_init credentials =
     \<lparr>http_method = Some ''POST'',
      headers = Map.empty,
      body = Some (JSON_stringify
               (JObj [(''email'', JStr (email credentials)), (''password'', JStr (password credentials))])),
      signal = None\<rparr>"

definition login ::
  "ApiClient \<Rightarrow> network \<Rightarrow> LoginCredentials \<Rightarrow> world \<Rightarrow> jsvalue ApiResponse \<times> world" where
  "login this net credentials w =
     request this net ''/api/v1/admin/auth/login'' (login_init credentials) w"

text \<open>The JSON object a server sends for a token pair, as \<^verbatim>\<open>AuthResponse\<close> declares it.\<close>

definition AuthResponse_json :: "AuthResponse \<Rightarrow> jsvalue" where
  "AuthResponse_json r =
     JObj [(''access_token'', JStr (access_token r)),
           (''refresh_token'', JStr (refresh_token r)),
           (''token_type'', JStr (token_type r)),
           (''expires_in'', JNum (expires_in r))]"

text \<open>The envelope of a call that met a 401.\<close>

definition auth_required :: "jsvalue ApiResponse" where
  "auth_required =
     \<lparr>success = False, data = None, message = Some ''Authentication required'', errors = None\<rparr>"

subsection \<open>Concrete stores, servers and calls\<close>

text \<open>A store holding a token pair that expires at 5000, read at time 1000.\<close>

definition store_valid :: world where
  "store_valid =
     \<lparr>localStorage = [ACCESS_TOKEN_KEY \<mapsto> ''tok123'', REFRESH_TOKEN_KEY \<mapsto> ''r1'',
                      TOKEN_EXPIRY_KEY \<mapsto> ''5000''],
      location_href = ''/'', now = 1000, fetch_log = []\<rparr>"

text \<open>The same store read at time 9000, after the expiry.\<close>

definition store_expired :: world where
  "store_expired = store_valid\<lparr>now := 9000\<rparr>"

text \<open>Nothing stored.\<close>

definition store_empty :: world where
  "store_empty = \<lparr>localStorage = Map.empty, location_href = ''/'', now = 1000, fetch_log = []\<rparr>"

text \<open>An access token with no expiry beside it.\<close>

definition store_no_expiry :: world where
  "store_no_expiry =
     \<lparr>localStorage = [ACCESS_TOKEN_KEY \<mapsto> ''tok123''],
      location_href = ''/'', now = 1000, fetch_log = []\<rparr>"

text \<open>
  An access token beside an expiry that is no number: the text \<^verbatim>\<open>NaN\<close>, which is what
  \<^verbatim>\<open>setTokens\<close> itself writes when the server's answer carries no \<^verbatim>\<open>expires_in\<close>.
\<close>

definition store_expiry_NaN :: world where
  "store_expiry_NaN =
     \<lparr>localStorage = [ACCESS_TOKEN_KEY \<mapsto> ''tok123'', TOKEN_EXPIRY_KEY \<mapsto> ''NaN''],
      location_href = ''/'', now = 1000, fetch_log = []\<rparr>"

text \<open>An access token and an expiry, and no refresh token.\<close>

definition store_no_refresh :: world where
  "store_no_refresh =
     \<lparr>localStorage = [ACCESS_TOKEN_KEY \<mapsto> ''tok123'', TOKEN_EXPIRY_KEY \<mapsto> ''5000''],
      location_href = ''/'', now = 1000, fetch_log = []\<rparr>"

text \<open>An access token that is the empty string, beside an expiry in the future.\<close>

definition store_empty_token :: world where
  "store_empty_token =
     \<lparr>localStorage = [ACCESS_TOKEN_KEY \<mapsto> [], REFRESH_TOKEN_KEY \<mapsto> ''r1'',
                      TOKEN_EXPIRY_KEY \<mapsto> ''5000''],
      location_href = ''/'', now = 1000, fetch_log = []\<rparr>"

text \<open>A call with no options, as \<^verbatim>\<open>getUsers\<close> and the other readers make it.\<close>

definition no_options :: RequestInit where
  "no_options = \<lparr>http_method = None, headers = Map.empty, body = None, signal = None\<rparr>"

definition users_endpoint :: string where
  "users_endpoint = ''/api/v1/admin/users''"

definition pair2 :: AuthResponse where
  "pair2 = \<lparr>access_token = ''a2'', refresh_token = ''r2'', token_type = ''bearer'',
             expires_in = 3600\<rparr>"

definition credentials0 :: LoginCredentials where
  "credentials0 = \<lparr>email = ''admin@example.com'', password = ''secret''\<rparr>"

definition response_401 :: "jsvalue Response" where
  "response_401 =
     \<lparr>status = 401, statusText = ''Unauthorized'',
      json = Returns (JObj [(''detail'', JStr ''Not authenticated'')])\<rparr>"

definition refresh_rejects :: "FetchCall list \<Rightarrow> FetchCall \<Rightarrow> nat \<times> AuthResponse settled" where
  "refresh_rejects log call = (30, Rejected (Error ''Failed to fetch''))"

definition refresh_200 :: "FetchCall list \<Rightarrow> FetchCall \<Rightarrow> nat \<times> AuthResponse settled" where
  "refresh_200 log call = (30, Resolved \<lparr>status = 200, statusText = ''OK'', json = Returns pair2\<rparr>)"

definition refresh_403 :: "FetchCall list \<Rightarrow> FetchCall \<Rightarrow> nat \<times> AuthResponse settled" where
  "refresh_403 log call =
     (30, Resolved \<lparr>status = 403, statusText = ''Forbidden'', json = Returns pair2\<rparr>)"

definition api_401 :: "FetchCall list \<Rightarrow> FetchCall \<Rightarrow> nat \<times> jsvalue settled" where
  "api_401 log call = (20, Resolved response_401)"

text \<open>Servers that answer the first call with 401 and the refresh in one of three ways.\<close>

definition net_401_refresh_200 :: network where
  "net_401_refresh_200 = \<lparr>api = api_401, auth = refresh_200\<rparr>"

definition net_401_refresh_403 :: network where
  "net_401_refresh_403 = \<lparr>api = api_401, auth = refresh_403\<rparr>"

definition net_401_refresh_down :: network where
  "net_401_refresh_down = \<lparr>api = api_401, auth = refresh_rejects\<rparr>"

text \<open>A server that answers 200 with a list, one that answers 500, and one out of reach.\<close>

definition api_200 :: "FetchCall list \<Rightarrow> FetchCall \<Rightarrow> nat \<times> jsvalue settled" where
  "api_200 log call =
     (20, Resolved \<lparr>status = 200, statusText = ''OK'', json = Returns (JArr [JNum 1, JNum 2])\<rparr>)"

definition api_500 :: "FetchCall list \<Rightarrow> FetchCall \<Rightarrow> nat \<times> jsvalue settled" where
  "api_500 log call =
     (20, Resolved \<lparr>status = 500, statusText = ''Internal Server Error'',
                     json = Returns (JObj [(''detail'', JStr ''boom'')])\<rparr>)"

definition api_down :: "FetchCall list \<Rightarrow> FetchCall \<Rightarrow> nat \<times> jsvalue settled" where
  "api_down log call = (20, Rejected (Error ''Failed to fetch''))"

definition net_200 :: network where
  "net_200 = \<lparr>api = api_200, auth = refresh_rejects\<rparr>"

definition net_500 :: network where
  "net_500 = \<lparr>api = api_500, auth = refresh_rejects\<rparr>"

definition net_down :: network where
  "net_down = \<lparr>api = api_down, auth = refresh_rejects\<rparr>"

text \<open>A server that answers the login with a token pair.\<close>

definition api_login_200 :: "FetchCall list \<Rightarrow> FetchCall \<Rightarrow> nat \<times> jsvalue settled" where
  "api_login_200 log call =
     (20, Resolved \<lparr>status = 200, statusText = ''OK'', json = Returns (AuthResponse_json pair2)\<rparr>)"

definition net_login_200 :: network where
  "net_login_200 = \<lparr>api = api_login_200, auth = refresh_rejects\<rparr>"

section \<open>Properties\<close>

subsection \<open>Auxiliary facts\<close>

lemma keys_distinct:
  "ACCESS_TOKEN_KEY \<noteq> REFRESH_TOKEN_KEY" "ACCESS_TOKEN_KEY \<noteq> TOKEN_EXPIRY_KEY"
  "REFRESH_TOKEN_KEY \<noteq> TOKEN_EXPIRY_KEY" "REFRESH_TOKEN_KEY \<noteq> ACCESS_TOKEN_KEY"
  "TOKEN_EXPIRY_KEY \<noteq> ACCESS_TOKEN_KEY" "TOKEN_EXPIRY_KEY \<noteq> REFRESH_TOKEN_KEY"
  by (simp_all add: ACCESS_TOKEN_KEY_def REFRESH_TOKEN_KEY_def TOKEN_EXPIRY_KEY_def)

lemmas parseInt_defs =
  parseInt_def stripSign_def stripPrefix_def isWhiteSpace_def isRadixDigit_def digitValue_def
  radixValue_def

lemma parseInt_5000: "parseInt ''5000'' = Some 5000"
  by (simp add: parseInt_defs)

lemma parseInt_NaN: "parseInt ''NaN'' = None"
  by (simp add: parseInt_defs)

lemma parseInt_empty: "parseInt [] = None"
  by (simp add: parseInt_defs)

lemma isTokenExpired_absent:
  "getItem TOKEN_EXPIRY_KEY w = None \<Longrightarrow> isTokenExpired w"
  by (simp add: isTokenExpired_def)

lemma isTokenExpired_numeric:
  "getItem TOKEN_EXPIRY_KEY w = Some s \<Longrightarrow> parseInt s = Some e \<Longrightarrow> isTokenExpired w = (now w \<ge> e)"
  by (auto simp add: isTokenExpired_def parseInt_empty)

lemma clearTokens_storage:
  "localStorage (clearTokens w) =
     (localStorage w)(ACCESS_TOKEN_KEY := None, REFRESH_TOKEN_KEY := None, TOKEN_EXPIRY_KEY := None)"
  by (simp add: clearTokens_def removeItem_def)

lemma clearTokens_cleared:
  "getAccessToken (clearTokens w) = None"
  "getRefreshToken (clearTokens w) = None"
  "getItem TOKEN_EXPIRY_KEY (clearTokens w) = None"
  by (simp_all add: clearTokens_storage getAccessToken_def getRefreshToken_def getItem_def
      keys_distinct)

lemma clearTokens_other:
  "location_href (clearTokens w) = location_href w"
  "now (clearTokens w) = now w"
  "fetch_log (clearTokens w) = fetch_log w"
  by (simp_all add: clearTokens_def removeItem_def)

subsection \<open>The token store\<close>

text \<open>
  Claim C6. In every state of the store, \<^verbatim>\<open>isAuthenticated()\<close> is true exactly when
  \<^verbatim>\<open>getAccessToken()\<close> returns a token and \<^verbatim>\<open>isTokenExpired()\<close> is false. In the
  combinations of the claim: with no access token it is false whatever the expiry; with an
  access token it is false when no expiry is recorded, false when the recorded expiry is
  at or before the current time, and true when it is after the current time.
\<close>

theorem C6_isAuthenticated_iff:
  "(isAuthenticated w \<longleftrightarrow> getAccessToken w \<noteq> None \<and> \<not> isTokenExpired w)
   \<and> (getAccessToken w = None \<longrightarrow> \<not> isAuthenticated w)
   \<and> (getItem TOKEN_EXPIRY_KEY w = None \<longrightarrow> \<not> isAuthenticated w)
   \<and> (\<forall>s e. getItem TOKEN_EXPIRY_KEY w = Some s \<and> parseInt s = Some e \<and> e \<le> now w
          \<longrightarrow> \<not> isAuthenticated w)
   \<and> (\<forall>t s e. getAccessToken w = Some t \<and> getItem TOKEN_EXPIRY_KEY w = Some s
          \<and> parseInt s = Some e \<and> now w < e \<longrightarrow> isAuthenticated w)"
proof -
  have iff: "isAuthenticated w \<longleftrightarrow> getAccessToken w \<noteq> None \<and> \<not> isTokenExpired w"
    by (simp add: isAuthenticated_def)
  have absent: "getItem TOKEN_EXPIRY_KEY w = None \<longrightarrow> \<not> isAuthenticated w"
    using isTokenExpired_absent [of w] by (simp add: iff)
  have past: "\<forall>s e. getItem TOKEN_EXPIRY_KEY w = Some s \<and> parseInt s = Some e \<and> e \<le> now w
      \<longrightarrow> \<not> isAuthenticated w"
    using isTokenExpired_numeric [of w] by (simp add: iff)
  have future: "\<forall>t s e. getAccessToken w = Some t \<and> getItem TOKEN_EXPIRY_KEY w = Some s
      \<and> parseInt s = Some e \<and> now w < e \<longrightarrow> isAuthenticated w"
    using isTokenExpired_numeric [of w] by (auto simp add: iff)
  from iff absent past future show ?thesis by simp
qed

theorem C6_isAuthenticated_witness:
  "isAuthenticated store_valid \<and> \<not> isAuthenticated store_expired
   \<and> \<not> isAuthenticated store_no_expiry \<and> \<not> isAuthenticated store_empty"
proof -
  have valid: "getAccessToken store_valid = Some ''tok123''
      \<and> getItem TOKEN_EXPIRY_KEY store_valid = Some ''5000''
      \<and> parseInt ''5000'' = Some 5000 \<and> now store_valid < 5000"
    by (simp add: store_valid_def getAccessToken_def getItem_def keys_distinct parseInt_5000)
  have expired: "getItem TOKEN_EXPIRY_KEY store_expired = Some ''5000''
      \<and> parseInt ''5000'' = Some 5000 \<and> 5000 \<le> now store_expired"
    by (simp add: store_expired_def store_valid_def getItem_def parseInt_5000)
  have no_expiry: "getItem TOKEN_EXPIRY_KEY store_no_expiry = None"
    by (simp add: store_no_expiry_def getItem_def keys_distinct)
  have empty: "getAccessToken store_empty = None"
    by (simp add: store_empty_def getAccessToken_def getItem_def)
  have a: "isAuthenticated store_valid"
    using valid C6_isAuthenticated_iff [of store_valid] by blast
  have b: "\<not> isAuthenticated store_expired"
    using expired C6_isAuthenticated_iff [of store_expired] by blast
  have c: "\<not> isAuthenticated store_no_expiry"
    using no_expiry C6_isAuthenticated_iff [of store_no_expiry] by blast
  have d: "\<not> isAuthenticated store_empty"
    using empty C6_isAuthenticated_iff [of store_empty] by blast
  from a b c d show ?thesis by simp
qed

text \<open>
  Claim C7. \<^verbatim>\<open>isTokenExpired()\<close> returns true when no expiry is recorded (the key is
  absent, or holds the empty string), and when the current time is at or after the
  recorded expiry; it returns false when the recorded
  expiry is strictly after the current time. The recorded expiry is the number that the
  stored text denotes.
\<close>

theorem C7_isTokenExpired:
  "(getItem TOKEN_EXPIRY_KEY w = None \<longrightarrow> isTokenExpired w)
   \<and> (getItem TOKEN_EXPIRY_KEY w = Some [] \<longrightarrow> isTokenExpired w)
   \<and> (\<forall>s e. getItem TOKEN_EXPIRY_KEY w = Some s \<and> parseInt s = Some e \<and> now w \<ge> e
          \<longrightarrow> isTokenExpired w)
   \<and> (\<forall>s e. getItem TOKEN_EXPIRY_KEY w = Some s \<and> parseInt s = Some e \<and> now w < e
          \<longrightarrow> \<not> isTokenExpired w)"
proof (intro conjI allI impI)
  assume "getItem TOKEN_EXPIRY_KEY w = None"
  then show "isTokenExpired w" by (rule isTokenExpired_absent)
next
  assume "getItem TOKEN_EXPIRY_KEY w = Some []"
  then show "isTokenExpired w" by (simp add: isTokenExpired_def)
next
  fix s e
  assume "getItem TOKEN_EXPIRY_KEY w = Some s \<and> parseInt s = Some e \<and> now w \<ge> e"
  then show "isTokenExpired w" by (simp add: isTokenExpired_numeric)
next
  fix s e
  assume "getItem TOKEN_EXPIRY_KEY w = Some s \<and> parseInt s = Some e \<and> now w < e"
  then show "\<not> isTokenExpired w" by (simp add: isTokenExpired_numeric)
qed

theorem C7_isTokenExpired_witness:
  "isTokenExpired store_no_expiry \<and> isTokenExpired store_empty
   \<and> isTokenExpired store_expired \<and> \<not> isTokenExpired store_valid"
proof -
  have valid: "getItem TOKEN_EXPIRY_KEY store_valid = Some ''5000''
      \<and> parseInt ''5000'' = Some 5000 \<and> now store_valid < 5000"
    by (simp add: store_valid_def getItem_def parseInt_5000)
  have expired: "getItem TOKEN_EXPIRY_KEY store_expired = Some ''5000''
      \<and> parseInt ''5000'' = Some 5000 \<and> now store_expired \<ge> 5000"
    by (simp add: store_expired_def store_valid_def getItem_def parseInt_5000)
  have no_expiry: "getItem TOKEN_EXPIRY_KEY store_no_expiry = None"
    by (simp add: store_no_expiry_def getItem_def keys_distinct)
  have empty: "getItem TOKEN_EXPIRY_KEY store_empty = None"
    by (simp add: store_empty_def getItem_def)
  have a: "isTokenExpired store_no_expiry"
    using no_expiry C7_isTokenExpired [of store_no_expiry, THEN conjunct1] by simp
  have b: "isTokenExpired store_empty"
    using empty C7_isTokenExpired [of store_empty, THEN conjunct1] by simp
  have c: "isTokenExpired store_expired"
    using expired
      C7_isTokenExpired [of store_expired, THEN conjunct2, THEN conjunct2, THEN conjunct1]
    by blast
  have d: "\<not> isTokenExpired store_valid"
    using valid
      C7_isTokenExpired [of store_valid, THEN conjunct2, THEN conjunct2, THEN conjunct2]
    by blast
  from a b c d show ?thesis by simp
qed

text \<open>
  Claim C9. The claim asks that a recorded expiry which is no number count as expired.
  On the store \<open>store_expiry_NaN\<close>, an access token beside the expiry text \<^verbatim>\<open>NaN\<close>,
  \<^verbatim>\<open>isTokenExpired()\<close> returns false and \<^verbatim>\<open>isAuthenticated()\<close> returns true, at any
  later time as well: the token never expires.
\<close>

theorem C9_expiry_NaN_never_expires:
  "getItem TOKEN_EXPIRY_KEY store_expiry_NaN = Some ''NaN''
   \<and> parseInt ''NaN'' = None
   \<and> isTokenExpired store_expiry_NaN = False
   \<and> isAuthenticated store_expiry_NaN = True
   \<and> isAuthenticated (store_expiry_NaN\<lparr>now := 99999999999999\<rparr>) = True"
  by (simp add: store_expiry_NaN_def isAuthenticated_def isTokenExpired_def getAccessToken_def
      getItem_def keys_distinct parseInt_NaN)

text \<open>
  Claim C10. \<^verbatim>\<open>clearTokens()\<close> is idempotent: it is a total function of the store, after
  one call and after two the three fields are absent, and the state after two calls is the
  state after one.
\<close>

theorem C10_clearTokens_idempotent:
  "clearTokens (clearTokens w) = clearTokens w
   \<and> getAccessToken (clearTokens w) = None
   \<and> getRefreshToken (clearTokens w) = None
   \<and> getItem TOKEN_EXPIRY_KEY (clearTokens w) = None
   \<and> getAccessToken (clearTokens (clearTokens w)) = None
   \<and> getRefreshToken (clearTokens (clearTokens w)) = None
   \<and> getItem TOKEN_EXPIRY_KEY (clearTokens (clearTokens w)) = None"
proof -
  have "clearTokens (clearTokens w) = clearTokens w"
    by (simp add: clearTokens_def removeItem_def)
  then show ?thesis by (simp add: clearTokens_cleared)
qed

theorem C10_clearTokens_witness:
  "clearTokens (clearTokens store_valid) = clearTokens store_valid
   \<and> getAccessToken (clearTokens store_valid) = None
   \<and> getRefreshToken (clearTokens store_valid) = None
   \<and> getItem TOKEN_EXPIRY_KEY (clearTokens store_valid) = None
   \<and> getAccessToken store_valid = Some ''tok123''"
  using C10_clearTokens_idempotent [of store_valid]
  by (simp add: store_valid_def getAccessToken_def getItem_def keys_distinct)

subsection \<open>Auxiliary facts about the gateway\<close>

lemma fetch_settles:
  "server (fetch_log w) (url, init) = (latency, outcome) \<Longrightarrow>
   fetch server url init w = (outcome, after_fetch url init latency w)"
  by (simp add: fetch_def)

lemma after_fetch_fields:
  "localStorage (after_fetch url init latency w) = localStorage w"
  "location_href (after_fetch url init latency w) = location_href w"
  "now (after_fetch url init latency w) = now w + int latency"
  "fetch_log (after_fetch url init latency w) = fetch_log w @ [(url, init)]"
  by (simp_all add: after_fetch_def)

lemma after_fetch_tokens:
  "getAccessToken (after_fetch url init latency w) = getAccessToken w"
  "getRefreshToken (after_fetch url init latency w) = getRefreshToken w"
  "getItem k (after_fetch url init latency w) = getItem k w"
  by (simp_all add: getAccessToken_def getRefreshToken_def getItem_def after_fetch_fields)

lemma navigate_fields:
  "localStorage (navigate href w) = localStorage w"
  "location_href (navigate href w) = href"
  "now (navigate href w) = now w"
  "fetch_log (navigate href w) = fetch_log w"
  by (simp_all add: navigate_def)

lemma navigate_tokens:
  "getAccessToken (navigate href w) = getAccessToken w"
  "getRefreshToken (navigate href w) = getRefreshToken w"
  "getItem k (navigate href w) = getItem k w"
  by (simp_all add: getAccessToken_def getRefreshToken_def getItem_def navigate_fields)

lemma setTokens_storage:
  "localStorage (setTokens p w) =
     (localStorage w)(ACCESS_TOKEN_KEY \<mapsto> access_token p, REFRESH_TOKEN_KEY \<mapsto> refresh_token p,
        TOKEN_EXPIRY_KEY \<mapsto> Number_toString (now w + expires_in p * 1000))"
  by (simp add: setTokens_def setItem_def)

lemma setTokens_other:
  "location_href (setTokens p w) = location_href w"
  "now (setTokens p w) = now w"
  "fetch_log (setTokens p w) = fetch_log w"
  by (simp_all add: setTokens_def setItem_def)

lemma setTokens_tokens:
  "getAccessToken (setTokens p w) = Some (access_token p)"
  "getRefreshToken (setTokens p w) = Some (refresh_token p)"
  "getItem TOKEN_EXPIRY_KEY (setTokens p w) = Some (Number_toString (now w + expires_in p * 1000))"
  by (simp_all add: getAccessToken_def getRefreshToken_def getItem_def setTokens_storage
      keys_distinct)

lemma logout_to_login_fields:
  "getAccessToken (navigate href (clearTokens w)) = None"
  "getRefreshToken (navigate href (clearTokens w)) = None"
  "getItem TOKEN_EXPIRY_KEY (navigate href (clearTokens w)) = None"
  "location_href (navigate href (clearTokens w)) = href"
  "fetch_log (navigate href (clearTokens w)) = fetch_log w"
  by (simp_all add: navigate_tokens navigate_fields clearTokens_cleared clearTokens_other)

lemma handleAuthError_no_token:
  "getRefreshToken w = None \<or> getRefreshToken w = Some [] \<Longrightarrow>
   handleAuthError this net w = navigate ''/login'' (clearTokens w)"
  by (auto simp add: handleAuthError_def)

lemma handleAuthError_rejected:
  assumes "getRefreshToken w = Some rt" and "rt \<noteq> []"
    and "auth net (fetch_log w) (refresh_url this, refresh_init rt) = (latency, Rejected e)"
  shows "handleAuthError this net w =
     navigate ''/login'' (clearTokens (after_fetch (refresh_url this) (refresh_init rt) latency w))"
  using assms by (simp add: handleAuthError_def handleAuthError_try_def fetch_settles)

lemma handleAuthError_not_ok:
  assumes "getRefreshToken w = Some rt" and "rt \<noteq> []"
    and "auth net (fetch_log w) (refresh_url this, refresh_init rt) = (latency, Resolved response)"
    and "\<not> ok response"
  shows "handleAuthError this net w =
     navigate ''/login'' (clearTokens (after_fetch (refresh_url this) (refresh_init rt) latency w))"
  using assms by (simp add: handleAuthError_def handleAuthError_try_def fetch_settles)

lemma handleAuthError_json_throws:
  assumes "getRefreshToken w = Some rt" and "rt \<noteq> []"
    and "auth net (fetch_log w) (refresh_url this, refresh_init rt) = (latency, Resolved response)"
    and "ok response" and "json response = Throws e"
  shows "handleAuthError this net w =
     navigate ''/login'' (clearTokens (after_fetch (refresh_url this) (refresh_init rt) latency w))"
  using assms by (simp add: handleAuthError_def handleAuthError_try_def fetch_settles)

lemma handleAuthError_ok:
  assumes "getRefreshToken w = Some rt" and "rt \<noteq> []"
    and "auth net (fetch_log w) (refresh_url this, refresh_init rt) = (latency, Resolved response)"
    and "ok response" and "json response = Returns p"
  shows "handleAuthError this net w =
     setTokens p (after_fetch (refresh_url this) (refresh_init rt) latency w)"
  using assms by (simp add: handleAuthError_def handleAuthError_try_def fetch_settles)

text \<open>Whatever the refresh endpoint does, the handler sends it one call.\<close>

lemma handleAuthError_log:
  "fetch_log (handleAuthError this net w) =
     fetch_log w @
       (case getRefreshToken w of
          None \<Rightarrow> []
        | Some rt \<Rightarrow> if rt = [] then [] else [(refresh_url this, refresh_init rt)])"
proof (cases "getRefreshToken w")
  case None
  then show ?thesis
    by (simp add: handleAuthError_no_token logout_to_login_fields)
next
  case (Some rt)
  show ?thesis
  proof (cases "rt = []")
    case True
    with Some show ?thesis
      by (simp add: handleAuthError_no_token logout_to_login_fields)
  next
    case False
    obtain latency outcome
      where reply: "auth net (fetch_log w) (refresh_url this, refresh_init rt) = (latency, outcome)"
      by (cases "auth net (fetch_log w) (refresh_url this, refresh_init rt)") auto
    show ?thesis
    proof (cases outcome)
      case (Rejected e)
      with Some False reply show ?thesis
        by (simp add: handleAuthError_rejected logout_to_login_fields after_fetch_fields)
    next
      case (Resolved response)
      show ?thesis
      proof (cases "ok response")
        case notok: False
        with Some False reply Resolved show ?thesis
          by (simp add: handleAuthError_not_ok logout_to_login_fields after_fetch_fields)
      next
        case isok: True
        show ?thesis
        proof (cases "json response")
          case (Throws e)
          with Some False reply Resolved isok show ?thesis
            by (simp add: handleAuthError_json_throws logout_to_login_fields after_fetch_fields)
        next
          case (Returns p)
          with Some False reply Resolved isok show ?thesis
            by (simp add: handleAuthError_ok setTokens_other after_fetch_fields)
        qed
      qed
    qed
  qed
qed

lemma request_401:
  assumes "api net (fetch_log w) (baseURL this @ endpoint, request_init this options w)
             = (latency, Resolved response)"
    and "status response = 401"
  shows "request this net endpoint options w =
     (auth_required,
      handleAuthError this net
        (after_fetch (baseURL this @ endpoint) (request_init this options w) latency w))"
  using assms by (simp add: request_def request_try_def fetch_settles auth_required_def)

lemma request_sends_first:
  "\<exists>rest. fetch_log (snd (request this net endpoint options w)) =
     fetch_log w @ (baseURL this @ endpoint, request_init this options w) # rest"
proof -
  obtain latency outcome
    where reply: "api net (fetch_log w) (baseURL this @ endpoint, request_init this options w)
                    = (latency, outcome)"
    by (cases "api net (fetch_log w) (baseURL this @ endpoint, request_init this options w)") auto
  show ?thesis
  proof (cases outcome)
    case (Rejected e)
    with reply show ?thesis
      by (simp add: request_def request_try_def fetch_settles after_fetch_fields)
  next
    case (Resolved response)
    show ?thesis
    proof (cases "status response = 401")
      case True
      with reply Resolved show ?thesis
        by (simp add: request_401 handleAuthError_log after_fetch_fields after_fetch_tokens)
    next
      case False
      with reply Resolved show ?thesis
        by (simp add: request_def request_try_def fetch_settles after_fetch_fields
            split: js_result.splits)
    qed
  qed
qed

subsection \<open>The expiry that setTokens writes is the expiry that isTokenExpired reads\<close>

lemma digitValue_digit_char: "d < 10 \<Longrightarrow> digitValue (digit_char d) = Some d"
proof -
  assume "d < 10"
  then have "d = 0 \<or> d = 1 \<or> d = 2 \<or> d = 3 \<or> d = 4 \<or> d = 5 \<or> d = 6 \<or> d = 7 \<or> d = 8 \<or> d = 9"
    by arith
  then show ?thesis
    by (elim disjE) (simp_all add: digit_char_def digitValue_def)
qed

lemma digits_snoc:
  "digits n = (if n < 10 then [] else digits (n div 10)) @ [digit_char (n mod 10)]"
  by (subst digits.simps) simp

lemma digits_decimal: "c \<in> set (digits n) \<Longrightarrow> \<exists>d < 10. c = digit_char d"
proof (induction n arbitrary: c rule: digits.induct)
  case (1 n)
  show ?case
  proof (cases "n < 10")
    case True
    with "1.prems" show ?thesis
      by (subst (asm) digits.simps) auto
  next
    case False
    from "1.prems" have "c \<in> set (digits (n div 10)) \<or> c = digit_char (n mod 10)"
      using False by (subst (asm) digits.simps) auto
    then show ?thesis
    proof
      assume "c \<in> set (digits (n div 10))"
      with False "1.IH" show ?thesis by blast
    next
      assume "c = digit_char (n mod 10)"
      moreover have "n mod 10 < 10" by simp
      ultimately show ?thesis by blast
    qed
  qed
qed

lemma digits_isRadixDigit: "c \<in> set (digits n) \<Longrightarrow> isRadixDigit 10 c"
  using digits_decimal [of c n] by (auto simp add: isRadixDigit_def digitValue_digit_char)

lemma digits_not_empty: "digits n \<noteq> []"
  by (subst digits.simps) simp

lemma radixValue_snoc:
  "radixValue R (Z @ [c]) = radixValue R Z * R + (case digitValue c of None \<Rightarrow> 0 | Some v \<Rightarrow> v)"
  by (simp add: radixValue_def)

lemma radixValue_digits: "radixValue 10 (digits n) = n"
proof (induction n rule: digits.induct)
  case (1 n)
  show ?case
  proof (cases "n < 10")
    case True
    then show ?thesis
      by (subst digits.simps) (simp add: radixValue_def digitValue_digit_char)
  next
    case False
    have "radixValue 10 (digits n) = radixValue 10 (digits (n div 10) @ [digit_char (n mod 10)])"
      using False by (subst digits.simps) simp
    also have "\<dots> = radixValue 10 (digits (n div 10)) * 10 + n mod 10"
      by (simp add: radixValue_snoc digitValue_digit_char)
    also have "\<dots> = n div 10 * 10 + n mod 10"
      using False "1.IH" by simp
    finally show ?thesis by simp
  qed
qed

lemma digit_char_plain:
  assumes "d < 10"
  shows "\<not> isWhiteSpace (digit_char d)" "digit_char d \<noteq> CHR ''-''" "digit_char d \<noteq> CHR ''+''"
    "digit_char d \<noteq> CHR ''x''" "digit_char d \<noteq> CHR ''X''"
proof -
  from assms have d: "d = 0 \<or> d = 1 \<or> d = 2 \<or> d = 3 \<or> d = 4 \<or> d = 5 \<or> d = 6 \<or> d = 7 \<or> d = 8 \<or> d = 9"
    by arith
  from d show "\<not> isWhiteSpace (digit_char d)"
    by (elim disjE) (simp_all add: digit_char_def isWhiteSpace_def)
  from d show "digit_char d \<noteq> CHR ''-''"
    by (elim disjE) (simp_all add: digit_char_def)
  from d show "digit_char d \<noteq> CHR ''+''"
    by (elim disjE) (simp_all add: digit_char_def)
  from d show "digit_char d \<noteq> CHR ''x''"
    by (elim disjE) (simp_all add: digit_char_def)
  from d show "digit_char d \<noteq> CHR ''X''"
    by (elim disjE) (simp_all add: digit_char_def)
qed

lemma parse_digits:
  "(let (R, S') = stripPrefix (digits n); Z = takeWhile (isRadixDigit R) S'
    in if Z = [] then None else Some (sign * int (radixValue R Z))) = Some (sign * int n)"
proof -
  have all: "\<forall>c \<in> set (digits n). isRadixDigit 10 c"
    by (simp add: digits_isRadixDigit)
  have prefix: "stripPrefix (digits n) = (10, digits n)"
  proof (cases "digits n")
    case Nil
    then show ?thesis by (simp add: stripPrefix_def)
  next
    case (Cons a r)
    show ?thesis
    proof (cases r)
      case Nil
      with Cons show ?thesis by (simp add: stripPrefix_def)
    next
      case (Cons b r')
      with \<open>digits n = a # r\<close> have "b \<in> set (digits n)" by simp
      then obtain d where "d < 10" "b = digit_char d"
        using digits_decimal by blast
      then have "b \<noteq> CHR ''x'' \<and> b \<noteq> CHR ''X''"
        by (simp add: digit_char_plain)
      with Cons \<open>digits n = a # r\<close> show ?thesis by (simp add: stripPrefix_def)
    qed
  qed
  from all have whole: "takeWhile (isRadixDigit 10) (digits n) = digits n"
    by simp
  show ?thesis
    by (simp add: prefix whole Let_def digits_not_empty radixValue_digits)
qed

lemma digits_head_plain:
  "dropWhile isWhiteSpace (digits n) = digits n \<and> stripSign (digits n) = (1, digits n)"
proof (cases "digits n")
  case Nil
  then show ?thesis by (simp add: digits_not_empty)
next
  case (Cons a r)
  then have "a \<in> set (digits n)" by simp
  then obtain d where "d < 10" "a = digit_char d"
    using digits_decimal by blast
  then have "\<not> isWhiteSpace a \<and> a \<noteq> CHR ''-'' \<and> a \<noteq> CHR ''+''"
    by (simp add: digit_char_plain)
  with Cons show ?thesis by (simp add: stripSign_def)
qed

lemma parseInt_Number_toString: "parseInt (Number_toString i) = Some i"
proof (cases "i < 0")
  case False
  have "parseInt (digits (nat i)) = Some (1 * int (nat i))"
    unfolding parseInt_def using digits_head_plain [of "nat i"] parse_digits [of "nat i" 1]
    by simp
  with False show ?thesis by (simp add: Number_toString_def)
next
  case True
  have "\<not> isWhiteSpace (CHR ''-'')" by (simp add: isWhiteSpace_def)
  then have "parseInt (CHR ''-'' # digits (nat (- i))) = Some (- 1 * int (nat (- i)))"
    unfolding parseInt_def using parse_digits [of "nat (- i)" "- 1"]
    by (simp add: stripSign_def)
  with True show ?thesis by (simp add: Number_toString_def)
qed

text \<open>
  Right after \<^verbatim>\<open>setTokens\<close> the token is expired exactly when \<^verbatim>\<open>expires_in\<close> is not
  positive, and from then on exactly when the clock has reached the expiry written.
\<close>

lemma isTokenExpired_setTokens:
  "isTokenExpired (setTokens p w) \<longleftrightarrow> expires_in p \<le> 0"
proof -
  have "Number_toString (now w + expires_in p * 1000) \<noteq> []"
    by (simp add: Number_toString_def digits_not_empty)
  then show ?thesis
    by (simp add: isTokenExpired_def setTokens_tokens parseInt_Number_toString setTokens_other)
qed

lemma isAuthenticated_setTokens:
  "isAuthenticated (setTokens p w) \<longleftrightarrow> 0 < expires_in p"
  by (auto simp add: isAuthenticated_def setTokens_tokens isTokenExpired_setTokens)

subsection \<open>The request gateway\<close>

text \<open>
  Claim C1. When the response to a call of \<^verbatim>\<open>request()\<close> has status 401, the refresh
  protocol \<^verbatim>\<open>handleAuthError\<close> runs once, on the browser as the call left it; the call
  returns the envelope with \<^verbatim>\<open>success: false\<close> and the message
  \<^verbatim>\<open>Authentication required\<close>, whatever the refresh endpoint answers; and the calls sent
  are the original one followed by at most one call to the refresh endpoint, which is a
  different call: the original is not sent again.
\<close>

theorem C1_unauthorized_one_refresh:
  assumes "api net (fetch_log w) (baseURL this @ endpoint, request_init this options w)
             = (latency, Resolved response)"
    and "status response = 401"
  shows "fst (request this net endpoint options w) =
           \<lparr>success = False, data = None, message = Some ''Authentication required'',
            errors = None\<rparr>
     \<and> snd (request this net endpoint options w) =
           handleAuthError this net
             (after_fetch (baseURL this @ endpoint) (request_init this options w) latency w)
     \<and> fetch_log (snd (request this net endpoint options w)) =
           fetch_log w @ (baseURL this @ endpoint, request_init this options w) #
             (case getRefreshToken w of
                None \<Rightarrow> []
              | Some rt \<Rightarrow> if rt = [] then [] else [(refresh_url this, refresh_init rt)])
     \<and> (\<forall>rt. (baseURL this @ endpoint, request_init this options w)
                  \<noteq> (refresh_url this, refresh_init rt))"
proof -
  have differ: "request_init this options w \<noteq> refresh_init rt" for rt
  proof
    assume "request_init this options w = refresh_init rt"
    then have "signal (request_init this options w) = signal (refresh_init rt)" by simp
    then show False by (simp add: request_init_def refresh_init_def)
  qed
  from assms show ?thesis
    by (simp add: request_401 auth_required_def handleAuthError_log after_fetch_fields
        after_fetch_tokens differ)
qed

theorem C1_unauthorized_witness:
  "api net_401_refresh_200 (fetch_log store_valid)
       (baseURL new_ApiClient @ users_endpoint, request_init new_ApiClient no_options store_valid)
     = (20, Resolved response_401)
   \<and> status response_401 = 401
   \<and> message (fst (request new_ApiClient net_401_refresh_200 users_endpoint no_options store_valid))
       = Some ''Authentication required''
   \<and> message (fst (request new_ApiClient net_401_refresh_403 users_endpoint no_options store_valid))
       = Some ''Authentication required''
   \<and> map fst (fetch_log
         (snd (request new_ApiClient net_401_refresh_200 users_endpoint no_options store_valid)))
       = [''http://localhost:8000/api/v1/admin/users'', ''http://localhost:8000/api/v1/auth/refresh'']
   \<and> map fst (fetch_log
         (snd (request new_ApiClient net_401_refresh_403 users_endpoint no_options store_valid)))
       = [''http://localhost:8000/api/v1/admin/users'', ''http://localhost:8000/api/v1/auth/refresh'']"
proof -
  have a: "api net_401_refresh_200 (fetch_log store_valid)
       (baseURL new_ApiClient @ users_endpoint, request_init new_ApiClient no_options store_valid)
     = (20, Resolved response_401)"
    by (simp add: net_401_refresh_200_def api_401_def)
  have b: "api net_401_refresh_403 (fetch_log store_valid)
       (baseURL new_ApiClient @ users_endpoint, request_init new_ApiClient no_options store_valid)
     = (20, Resolved response_401)"
    by (simp add: net_401_refresh_403_def api_401_def)
  have s: "status response_401 = 401"
    by (simp add: response_401_def)
  have r: "getRefreshToken store_valid = Some ''r1''"
    by (simp add: getRefreshToken_def getItem_def store_valid_def keys_distinct)
  have l: "fetch_log store_valid = []"
    by (simp add: store_valid_def)
  have u: "baseURL new_ApiClient @ users_endpoint = ''http://localhost:8000/api/v1/admin/users''"
    "refresh_url new_ApiClient = ''http://localhost:8000/api/v1/auth/refresh''"
    by (simp_all add: new_ApiClient_def BASE_URL_def users_endpoint_def refresh_url_def)
  note ok_case = C1_unauthorized_one_refresh [OF a s]
  note ko_case = C1_unauthorized_one_refresh [OF b s]
  have m1: "message (fst (request new_ApiClient net_401_refresh_200 users_endpoint no_options store_valid))
       = Some ''Authentication required''"
    by (simp add: ok_case [THEN conjunct1])
  have m2: "message (fst (request new_ApiClient net_401_refresh_403 users_endpoint no_options store_valid))
       = Some ''Authentication required''"
    by (simp add: ko_case [THEN conjunct1])
  have l1: "map fst (fetch_log
         (snd (request new_ApiClient net_401_refresh_200 users_endpoint no_options store_valid)))
       = [''http://localhost:8000/api/v1/admin/users'', ''http://localhost:8000/api/v1/auth/refresh'']"
    by (simp add: ok_case [THEN conjunct2, THEN conjunct2, THEN conjunct1] r l u)
  have l2: "map fst (fetch_log
         (snd (request new_ApiClient net_401_refresh_403 users_endpoint no_options store_valid)))
       = [''http://localhost:8000/api/v1/admin/users'', ''http://localhost:8000/api/v1/auth/refresh'']"
    by (simp add: ko_case [THEN conjunct2, THEN conjunct2, THEN conjunct1] r l u)
  from a s m1 m2 l1 l2 show ?thesis by simp
qed

text \<open>
  Claim C2. \<^verbatim>\<open>request()\<close> is a total function of its inputs, of the browser and of what
  the server does, every exception of its \<^verbatim>\<open>try\<close> block being a value that its handler
  turns into an envelope. The envelope has either \<^verbatim>\<open>success: true\<close>, the data and no
  message, or \<^verbatim>\<open>success: false\<close>, a message and no data. It has \<^verbatim>\<open>success: true\<close> exactly
  when the call resolved with a status from 200 to 299 and a body that parsed: a rejected
  call (a transport error or a time-out), a body that does not parse, a status outside
  200 to 299, and a 401 among them, all give \<^verbatim>\<open>success: false\<close>.
\<close>

theorem C2_request_envelope:
  "((\<exists>d. fst (request this net endpoint options w) =
          \<lparr>success = True, data = Some d, message = None, errors = None\<rparr>)
    \<or> (\<exists>m. fst (request this net endpoint options w) =
          \<lparr>success = False, data = None, message = Some m, errors = None\<rparr>))
   \<and> (success (fst (request this net endpoint options w)) \<longleftrightarrow>
        (\<exists>latency response d.
           api net (fetch_log w) (baseURL this @ endpoint, request_init this options w)
             = (latency, Resolved response)
           \<and> ok response \<and> json response = Returns d))"
proof -
  obtain latency outcome
    where reply: "api net (fetch_log w) (baseURL this @ endpoint, request_init this options w)
                    = (latency, outcome)"
    by (cases "api net (fetch_log w) (baseURL this @ endpoint, request_init this options w)") auto
  show ?thesis
  proof (cases outcome)
    case (Rejected e)
    with reply show ?thesis
      by (simp add: request_def request_try_def fetch_settles)
  next
    case (Resolved response)
    show ?thesis
    proof (cases "status response = 401")
      case True
      then have "\<not> ok response" by (simp add: ok_def)
      with True reply Resolved show ?thesis
        by (simp add: request_401 auth_required_def)
    next
      case not401: False
      show ?thesis
      proof (cases "json response")
        case (Throws e)
        with not401 reply Resolved show ?thesis
          by (simp add: request_def request_try_def fetch_settles)
      next
        case (Returns d)
        show ?thesis
        proof (cases "ok response")
          case True
          with Returns not401 reply Resolved show ?thesis
            by (simp add: request_def request_try_def fetch_settles)
        next
          case False
          with Returns not401 reply Resolved show ?thesis
            by (simp add: request_def request_try_def fetch_settles split: js_result.splits)
        qed
      qed
    qed
  qed
qed

theorem C2_request_envelope_witness:
  "success (fst (request new_ApiClient net_200 users_endpoint no_options store_valid))
   \<and> data (fst (request new_ApiClient net_200 users_endpoint no_options store_valid))
       = Some (JArr [JNum 1, JNum 2])
   \<and> fst (request new_ApiClient net_500 users_endpoint no_options store_valid)
       = \<lparr>success = False, data = None, message = Some ''boom'', errors = None\<rparr>
   \<and> fst (request new_ApiClient net_down users_endpoint no_options store_valid)
       = \<lparr>success = False, data = None, message = Some ''Failed to fetch'', errors = None\<rparr>"
proof -
  let ?call = "(baseURL new_ApiClient @ users_endpoint, request_init new_ApiClient no_options store_valid)"
  let ?r200 = "\<lparr>status = 200, statusText = ''OK'', json = Returns (JArr [JNum 1, JNum 2])\<rparr>"
  have "api net_200 (fetch_log store_valid) ?call = (20, Resolved ?r200)
      \<and> ok ?r200 \<and> json ?r200 = Returns (JArr [JNum 1, JNum 2])"
    by (simp add: net_200_def api_200_def ok_def)
  then have "\<exists>latency response d. api net_200 (fetch_log store_valid) ?call = (latency, Resolved response)
      \<and> ok response \<and> json response = Returns d"
    by blast
  with C2_request_envelope [of new_ApiClient net_200 users_endpoint no_options store_valid]
  have s200: "success (fst (request new_ApiClient net_200 users_endpoint no_options store_valid))"
    by simp
  have d200: "data (fst (request new_ApiClient net_200 users_endpoint no_options store_valid))
       = Some (JArr [JNum 1, JNum 2])"
    by (simp add: request_def request_try_def fetch_def net_200_def api_200_def ok_def)
  have e500: "fst (request new_ApiClient net_500 users_endpoint no_options store_valid)
       = \<lparr>success = False, data = None, message = Some ''boom'', errors = None\<rparr>"
    by (simp add: request_def request_try_def fetch_def net_500_def api_500_def ok_def
        getProperty_def http_error_message_def)
  have edown: "fst (request new_ApiClient net_down users_endpoint no_options store_valid)
       = \<lparr>success = False, data = None, message = Some ''Failed to fetch'', errors = None\<rparr>"
    by (simp add: request_def request_try_def fetch_def net_down_def api_down_def)
  from s200 d200 e500 edown show ?thesis by simp
qed

text \<open>
  Claim C3. The refresh protocol entered with a refresh token sends one call to the refresh
  endpoint. If the call resolves with a status from 200 to 299 and a token pair,
  \<^verbatim>\<open>setTokens\<close> is applied to the pair, so that \<^verbatim>\<open>getAccessToken()\<close> then returns the new
  access token. If the call resolves with another status, or is rejected, the three
  fields of the store are removed, so that \<^verbatim>\<open>getAccessToken()\<close> returns nothing, and
  \<^verbatim>\<open>window.location.href\<close> is the login route.
\<close>

theorem C3_refresh_outcomes:
  assumes "getRefreshToken w = Some rt" and "rt \<noteq> []"
    and "auth net (fetch_log w) (refresh_url this, refresh_init rt) = (latency, outcome)"
  shows "(\<forall>response p. outcome = Resolved response \<and> ok response \<and> json response = Returns p \<longrightarrow>
            handleAuthError this net w =
              setTokens p (after_fetch (refresh_url this) (refresh_init rt) latency w)
            \<and> getAccessToken (handleAuthError this net w) = Some (access_token p)
            \<and> getRefreshToken (handleAuthError this net w) = Some (refresh_token p)
            \<and> location_href (handleAuthError this net w) = location_href w)
     \<and> ((\<exists>response. outcome = Resolved response \<and> \<not> ok response) \<or> (\<exists>e. outcome = Rejected e) \<longrightarrow>
            getAccessToken (handleAuthError this net w) = None
            \<and> getRefreshToken (handleAuthError this net w) = None
            \<and> getItem TOKEN_EXPIRY_KEY (handleAuthError this net w) = None
            \<and> location_href (handleAuthError this net w) = ''/login'')"
proof -
  let ?w1 = "after_fetch (refresh_url this) (refresh_init rt) latency w"
  have renewed: "handleAuthError this net w = setTokens p ?w1
      \<and> getAccessToken (handleAuthError this net w) = Some (access_token p)
      \<and> getRefreshToken (handleAuthError this net w) = Some (refresh_token p)
      \<and> location_href (handleAuthError this net w) = location_href w"
    if "outcome = Resolved response \<and> ok response \<and> json response = Returns p"
    for response p
  proof -
    from that assms have "handleAuthError this net w = setTokens p ?w1"
      by (simp add: handleAuthError_ok)
    then show ?thesis
      by (simp add: setTokens_tokens setTokens_other after_fetch_fields)
  qed
  have torn_down: "getAccessToken (handleAuthError this net w) = None
      \<and> getRefreshToken (handleAuthError this net w) = None
      \<and> getItem TOKEN_EXPIRY_KEY (handleAuthError this net w) = None
      \<and> location_href (handleAuthError this net w) = ''/login''"
    if "(\<exists>response. outcome = Resolved response \<and> \<not> ok response) \<or> (\<exists>e. outcome = Rejected e)"
  proof -
    from that assms have "handleAuthError this net w = navigate ''/login'' (clearTokens ?w1)"
      by (auto simp add: handleAuthError_not_ok handleAuthError_rejected)
    then show ?thesis
      by (simp add: logout_to_login_fields)
  qed
  from renewed torn_down show ?thesis by blast
qed

theorem C3_refresh_outcomes_witness:
  "getRefreshToken store_valid = Some ''r1''
   \<and> getAccessToken (handleAuthError new_ApiClient net_401_refresh_200 store_valid) = Some ''a2''
   \<and> getAccessToken (handleAuthError new_ApiClient net_401_refresh_403 store_valid) = None
   \<and> location_href (handleAuthError new_ApiClient net_401_refresh_403 store_valid) = ''/login''
   \<and> getAccessToken (handleAuthError new_ApiClient net_401_refresh_down store_valid) = None
   \<and> location_href (handleAuthError new_ApiClient net_401_refresh_down store_valid) = ''/login''"
proof -
  let ?call = "(refresh_url new_ApiClient, refresh_init ''r1'')"
  let ?r200 = "\<lparr>status = 200, statusText = ''OK'', json = Returns pair2\<rparr>"
  let ?r403 = "\<lparr>status = 403, statusText = ''Forbidden'', json = Returns pair2\<rparr>"
  have r: "getRefreshToken store_valid = Some ''r1''"
    by (simp add: getRefreshToken_def getItem_def store_valid_def keys_distinct)
  have ne: "''r1'' \<noteq> []" by simp
  have a: "auth net_401_refresh_200 (fetch_log store_valid) ?call = (30, Resolved ?r200)"
    by (simp add: net_401_refresh_200_def refresh_200_def)
  have b: "auth net_401_refresh_403 (fetch_log store_valid) ?call = (30, Resolved ?r403)"
    by (simp add: net_401_refresh_403_def refresh_403_def)
  have c: "auth net_401_refresh_down (fetch_log store_valid) ?call
      = (30, Rejected (Error ''Failed to fetch''))"
    by (simp add: net_401_refresh_down_def refresh_rejects_def)
  have ok200: "ok ?r200" and ko403: "\<not> ok ?r403"
    by (simp_all add: ok_def)
  have a2: "getAccessToken (handleAuthError new_ApiClient net_401_refresh_200 store_valid) = Some ''a2''"
    using C3_refresh_outcomes [OF r ne a] ok200 by (simp add: pair2_def setTokens_tokens)
  have b2: "getAccessToken (handleAuthError new_ApiClient net_401_refresh_403 store_valid) = None
      \<and> location_href (handleAuthError new_ApiClient net_401_refresh_403 store_valid) = ''/login''"
    using C3_refresh_outcomes [OF r ne b] ko403 by simp
  have c2: "getAccessToken (handleAuthError new_ApiClient net_401_refresh_down store_valid) = None
      \<and> location_href (handleAuthError new_ApiClient net_401_refresh_down store_valid) = ''/login''"
    using C3_refresh_outcomes [OF r ne c] by simp
  from r a2 b2 c2 show ?thesis by simp
qed

text \<open>
  Claim C4. When a call meets a 401 while the store holds no refresh token (none, or the
  empty string), the only call sent is the original one: nothing is sent to the refresh
  endpoint, the three fields of the store are removed at once, and
  \<^verbatim>\<open>window.location.href\<close> is the login route.
\<close>

theorem C4_no_refresh_token:
  assumes "api net (fetch_log w) (baseURL this @ endpoint, request_init this options w)
             = (latency, Resolved response)"
    and "status response = 401"
    and "getRefreshToken w = None \<or> getRefreshToken w = Some []"
  shows "snd (request this net endpoint options w) =
           navigate ''/login''
             (clearTokens (after_fetch (baseURL this @ endpoint) (request_init this options w) latency w))
     \<and> fetch_log (snd (request this net endpoint options w)) =
           fetch_log w @ [(baseURL this @ endpoint, request_init this options w)]
     \<and> getAccessToken (snd (request this net endpoint options w)) = None
     \<and> getRefreshToken (snd (request this net endpoint options w)) = None
     \<and> getItem TOKEN_EXPIRY_KEY (snd (request this net endpoint options w)) = None
     \<and> location_href (snd (request this net endpoint options w)) = ''/login''"
proof -
  let ?w1 = "after_fetch (baseURL this @ endpoint) (request_init this options w) latency w"
  from assms(3) have "getRefreshToken ?w1 = None \<or> getRefreshToken ?w1 = Some []"
    by (simp add: after_fetch_tokens)
  then have "handleAuthError this net ?w1 = navigate ''/login'' (clearTokens ?w1)"
    by (rule handleAuthError_no_token)
  with assms(1,2) have "snd (request this net endpoint options w) = navigate ''/login'' (clearTokens ?w1)"
    by (simp add: request_401)
  then show ?thesis
    by (simp add: logout_to_login_fields after_fetch_fields)
qed

theorem C4_no_refresh_token_witness:
  "getRefreshToken store_no_refresh = None
   \<and> status response_401 = 401
   \<and> map fst (fetch_log
        (snd (request new_ApiClient net_401_refresh_200 users_endpoint no_options store_no_refresh)))
       = [''http://localhost:8000/api/v1/admin/users'']
   \<and> getAccessToken
        (snd (request new_ApiClient net_401_refresh_200 users_endpoint no_options store_no_refresh))
       = None
   \<and> location_href
        (snd (request new_ApiClient net_401_refresh_200 users_endpoint no_options store_no_refresh))
       = ''/login''
   \<and> getAccessToken store_no_refresh = Some ''tok123''"
proof -
  have a: "api net_401_refresh_200 (fetch_log store_no_refresh)
       (baseURL new_ApiClient @ users_endpoint,
        request_init new_ApiClient no_options store_no_refresh)
     = (20, Resolved response_401)"
    by (simp add: net_401_refresh_200_def api_401_def)
  have s: "status response_401 = 401"
    by (simp add: response_401_def)
  have r: "getRefreshToken store_no_refresh = None"
    by (simp add: getRefreshToken_def getItem_def store_no_refresh_def keys_distinct)
  then have r': "getRefreshToken store_no_refresh = None \<or> getRefreshToken store_no_refresh = Some []"
    by simp
  have t: "getAccessToken store_no_refresh = Some ''tok123''"
    by (simp add: getAccessToken_def getItem_def store_no_refresh_def keys_distinct)
  have l: "fetch_log store_no_refresh = []"
    by (simp add: store_no_refresh_def)
  have u: "baseURL new_ApiClient @ users_endpoint = ''http://localhost:8000/api/v1/admin/users''"
    by (simp add: new_ApiClient_def BASE_URL_def users_endpoint_def)
  note fact = C4_no_refresh_token [OF a s r']
  have f1: "map fst (fetch_log
        (snd (request new_ApiClient net_401_refresh_200 users_endpoint no_options store_no_refresh)))
       = [''http://localhost:8000/api/v1/admin/users'']"
    by (simp add: fact [THEN conjunct2, THEN conjunct1] l u)
  have f2: "getAccessToken
        (snd (request new_ApiClient net_401_refresh_200 users_endpoint no_options store_no_refresh))
       = None"
    by (simp add: fact [THEN conjunct2, THEN conjunct2, THEN conjunct1])
  have f3: "location_href
        (snd (request new_ApiClient net_401_refresh_200 users_endpoint no_options store_no_refresh))
       = ''/login''"
    by (simp add: fact [THEN conjunct2, THEN conjunct2, THEN conjunct2, THEN conjunct2, THEN conjunct2])
  from r s f1 f2 f3 t show ?thesis by simp
qed

text \<open>
  Claim C5, as the code has it. The first call that \<^verbatim>\<open>request()\<close> sends carries the headers
  of \<open>request_init\<close>. When the store holds an access token that is not the empty string
  and is not expired, they include \<^verbatim>\<open>Authorization: Bearer\<close> followed by the token. When
  the token is absent, empty or expired, \<^verbatim>\<open>request()\<close> adds no \<^verbatim>\<open>Authorization\<close> header:
  the headers are the caller's over the default content type, and \<^verbatim>\<open>Authorization\<close> is
  among them only if the caller put it there. In every case \<^verbatim>\<open>Content-Type\<close> is
  \<^verbatim>\<open>application/json\<close> unless the caller's headers give another.
\<close>

theorem C5_request_headers:
  "(\<exists>rest. fetch_log (snd (request this net endpoint options w)) =
        fetch_log w @ (baseURL this @ endpoint, request_init this options w) # rest)
   \<and> (\<forall>t. getAccessToken w = Some t \<and> t \<noteq> [] \<and> \<not> isTokenExpired w \<longrightarrow>
          headers (request_init this options w) ''Authorization'' = Some (''Bearer '' @ t))
   \<and> (getAccessToken w = None \<or> getAccessToken w = Some [] \<or> isTokenExpired w \<longrightarrow>
          headers (request_init this options w)
            = [''Content-Type'' \<mapsto> ''application/json''] ++ headers options
          \<and> headers (request_init this options w) ''Authorization''
            = headers options ''Authorization'')
   \<and> headers (request_init this options w) ''Content-Type''
        = (case headers options ''Content-Type'' of
             None \<Rightarrow> Some ''application/json''
           | Some v \<Rightarrow> Some v)"
proof -
  have sent: "\<exists>rest. fetch_log (snd (request this net endpoint options w)) =
      fetch_log w @ (baseURL this @ endpoint, request_init this options w) # rest"
    by (rule request_sends_first)
  have bearer: "headers (request_init this options w) ''Authorization'' = Some (''Bearer '' @ t)"
    if "getAccessToken w = Some t \<and> t \<noteq> [] \<and> \<not> isTokenExpired w" for t
    using that by (simp add: request_init_def request_headers_def Let_def)
  have none: "headers (request_init this options w)
        = [''Content-Type'' \<mapsto> ''application/json''] ++ headers options
      \<and> headers (request_init this options w) ''Authorization''
        = headers options ''Authorization''"
    if "getAccessToken w = None \<or> getAccessToken w = Some [] \<or> isTokenExpired w"
  proof -
    from that have "headers (request_init this options w)
        = [''Content-Type'' \<mapsto> ''application/json''] ++ headers options"
      by (auto simp add: request_init_def request_headers_def Let_def split: option.splits)
    moreover have "([''Content-Type'' \<mapsto> ''application/json''] ++ headers options) ''Authorization''
        = headers options ''Authorization''"
      by (simp add: map_add_def split: option.splits)
    ultimately show ?thesis by simp
  qed
  have content: "headers (request_init this options w) ''Content-Type''
      = (case headers options ''Content-Type'' of
           None \<Rightarrow> Some ''application/json''
         | Some v \<Rightarrow> Some v)"
    by (simp add: request_init_def request_headers_def Let_def map_add_def split: option.splits)
  from sent bearer none content show ?thesis by blast
qed

theorem C5_request_headers_witness:
  "getAccessToken store_valid = Some ''tok123'' \<and> \<not> isTokenExpired store_valid
   \<and> headers (request_init new_ApiClient no_options store_valid) ''Authorization''
       = Some ''Bearer tok123''
   \<and> isTokenExpired store_expired
   \<and> headers (request_init new_ApiClient no_options store_expired) ''Authorization'' = None
   \<and> getAccessToken store_empty = None
   \<and> headers (request_init new_ApiClient no_options store_empty) ''Authorization'' = None
   \<and> headers (request_init new_ApiClient no_options store_valid) ''Content-Type''
       = Some ''application/json''"
proof -
  have t: "getAccessToken store_valid = Some ''tok123''"
    by (simp add: getAccessToken_def getItem_def store_valid_def keys_distinct)
  have v: "\<not> isTokenExpired store_valid"
    by (simp add: isTokenExpired_def getItem_def store_valid_def parseInt_5000)
  have x: "isTokenExpired store_expired"
    by (simp add: isTokenExpired_def getItem_def store_expired_def store_valid_def parseInt_5000)
  have e: "getAccessToken store_empty = None"
    by (simp add: getAccessToken_def getItem_def store_empty_def)
  have h: "headers no_options ''Authorization'' = None" "headers no_options ''Content-Type'' = None"
    by (simp_all add: no_options_def)
  have a: "headers (request_init new_ApiClient no_options store_valid) ''Authorization''
       = Some ''Bearer tok123''"
    using t v C5_request_headers [of new_ApiClient net_200 users_endpoint no_options store_valid]
    by simp
  have b: "headers (request_init new_ApiClient no_options store_expired) ''Authorization'' = None"
    using x h C5_request_headers [of new_ApiClient net_200 users_endpoint no_options store_expired]
    by simp
  have c: "headers (request_init new_ApiClient no_options store_empty) ''Authorization'' = None"
    using e h C5_request_headers [of new_ApiClient net_200 users_endpoint no_options store_empty]
    by simp
  have d: "headers (request_init new_ApiClient no_options store_valid) ''Content-Type''
       = Some ''application/json''"
    using h C5_request_headers [of new_ApiClient net_200 users_endpoint no_options store_valid]
    by simp
  from t v x e a b c d show ?thesis by simp
qed

text \<open>
  Claim C5 as it is written fails where the access token is the empty string: it is
  present, \<^verbatim>\<open>getAccessToken()\<close> returns it and \<^verbatim>\<open>isAuthenticated()\<close> is true, it is not
  expired, and the one call that \<^verbatim>\<open>request()\<close> sends has no \<^verbatim>\<open>Authorization\<close> header.
\<close>

theorem C5_empty_token_counterexample:
  "getAccessToken store_empty_token = Some []
   \<and> \<not> isTokenExpired store_empty_token
   \<and> isAuthenticated store_empty_token
   \<and> length (fetch_log
        (snd (request new_ApiClient net_200 users_endpoint no_options store_empty_token))) = 1
   \<and> headers (snd (hd (fetch_log
        (snd (request new_ApiClient net_200 users_endpoint no_options store_empty_token)))))
       ''Authorization'' = None"
proof -
  have t: "getAccessToken store_empty_token = Some []"
    by (simp add: getAccessToken_def getItem_def store_empty_token_def keys_distinct)
  have v: "\<not> isTokenExpired store_empty_token"
    by (simp add: isTokenExpired_def getItem_def store_empty_token_def parseInt_5000)
  have i: "isAuthenticated store_empty_token"
    using t v by (simp add: isAuthenticated_def)
  have l: "fetch_log (snd (request new_ApiClient net_200 users_endpoint no_options store_empty_token))
      = [(baseURL new_ApiClient @ users_endpoint,
          request_init new_ApiClient no_options store_empty_token)]"
    by (simp add: request_def request_try_def fetch_def net_200_def api_200_def ok_def
        after_fetch_fields store_empty_token_def)
  have h: "headers (request_init new_ApiClient no_options store_empty_token) ''Authorization'' = None"
    using t by (simp add: request_init_def request_headers_def Let_def no_options_def)
  from t v i l h show ?thesis by simp
qed

text \<open>
  Claim C8, as the code has it. When the response to \<^verbatim>\<open>login()\<close> has a status from 200
  to 299 and a token pair as its body, \<^verbatim>\<open>login()\<close> returns the envelope with
  \<^verbatim>\<open>success: true\<close> and the pair as its data, and leaves the store as it was. The pair is
  in the store once \<^verbatim>\<open>setTokens\<close> has been applied to it: the store then holds the
  access token, the refresh token, and as expiry the time of that call plus
  \<^verbatim>\<open>expires_in\<close> times 1000.
\<close>

theorem C8_login_returns_pair:
  assumes "api net (fetch_log w)
             (baseURL this @ ''/api/v1/admin/auth/login'', request_init this (login_init credentials) w)
           = (latency, Resolved response)"
    and "ok response"
    and "json response = Returns (AuthResponse_json p)"
  shows "fst (login this net credentials w) =
           \<lparr>success = True, data = Some (AuthResponse_json p), message = None, errors = None\<rparr>
     \<and> localStorage (snd (login this net credentials w)) = localStorage w
     \<and> getAccessToken (setTokens p (snd (login this net credentials w))) = Some (access_token p)
     \<and> getRefreshToken (setTokens p (snd (login this net credentials w))) = Some (refresh_token p)
     \<and> getItem TOKEN_EXPIRY_KEY (setTokens p (snd (login this net credentials w))) =
         Some (Number_toString (now (snd (login this net credentials w)) + expires_in p * 1000))"
proof -
  from assms(2) have not401: "status response \<noteq> 401"
    by (auto simp add: ok_def)
  from assms not401 have "login this net credentials w =
      (\<lparr>success = True, data = Some (AuthResponse_json p), message = None, errors = None\<rparr>,
       after_fetch (baseURL this @ ''/api/v1/admin/auth/login'')
         (request_init this (login_init credentials) w) latency w)"
    by (simp add: login_def request_def request_try_def fetch_settles)
  then show ?thesis
    by (simp add: after_fetch_fields setTokens_tokens)
qed

theorem C8_login_returns_pair_witness:
  "fst (login new_ApiClient net_login_200 credentials0 store_empty) =
     \<lparr>success = True, data = Some (AuthResponse_json pair2), message = None, errors = None\<rparr>
   \<and> localStorage (snd (login new_ApiClient net_login_200 credentials0 store_empty))
       = localStorage store_empty
   \<and> getAccessToken (setTokens pair2 (snd (login new_ApiClient net_login_200 credentials0 store_empty)))
       = Some ''a2''
   \<and> getItem TOKEN_EXPIRY_KEY
        (setTokens pair2 (snd (login new_ApiClient net_login_200 credentials0 store_empty)))
       = Some ''3601020''"
proof -
  let ?r = "\<lparr>status = 200, statusText = ''OK'', json = Returns (AuthResponse_json pair2)\<rparr>"
  have a: "api net_login_200 (fetch_log store_empty)
        (baseURL new_ApiClient @ ''/api/v1/admin/auth/login'',
         request_init new_ApiClient (login_init credentials0) store_empty)
      = (20, Resolved ?r)"
    by (simp add: net_login_200_def api_login_200_def)
  have b: "ok ?r" by (simp add: ok_def)
  have c: "json ?r = Returns (AuthResponse_json pair2)" by simp
  note fact = C8_login_returns_pair [OF a b c]
  have n: "now (snd (login new_ApiClient net_login_200 credentials0 store_empty)) = 1020"
    by (simp add: login_def request_def request_try_def fetch_def net_login_200_def
        api_login_200_def ok_def after_fetch_fields store_empty_def)
  have s: "Number_toString 3601020 = ''3601020''"
    by (simp add: Number_toString_def digits.simps digit_char_def)
  have e: "getItem TOKEN_EXPIRY_KEY
        (setTokens pair2 (snd (login new_ApiClient net_login_200 credentials0 store_empty)))
       = Some ''3601020''"
    using fact [THEN conjunct2, THEN conjunct2, THEN conjunct2, THEN conjunct2]
    by (simp add: n s pair2_def)
  have t: "getAccessToken (setTokens pair2 (snd (login new_ApiClient net_login_200 credentials0 store_empty)))
       = Some ''a2''"
    using fact [THEN conjunct2, THEN conjunct2, THEN conjunct1] by (simp add: pair2_def)
  from fact [THEN conjunct1] fact [THEN conjunct2, THEN conjunct1] t e show ?thesis by simp
qed

text \<open>
  Claim C8 as it is written fails: after a \<^verbatim>\<open>login()\<close> that succeeded and returned the
  pair, the store that was empty is empty still.
\<close>

theorem C8_login_counterexample:
  "success (fst (login new_ApiClient net_login_200 credentials0 store_empty))
   \<and> data (fst (login new_ApiClient net_login_200 credentials0 store_empty))
       = Some (AuthResponse_json pair2)
   \<and> getAccessToken (snd (login new_ApiClient net_login_200 credentials0 store_empty)) = None
   \<and> getRefreshToken (snd (login new_ApiClient net_login_200 credentials0 store_empty)) = None
   \<and> getItem TOKEN_EXPIRY_KEY (snd (login new_ApiClient net_login_200 credentials0 store_empty))
       = None"
  by (simp add: login_def request_def request_try_def fetch_def net_login_200_def
      api_login_200_def ok_def after_fetch_def store_empty_def getAccessToken_def
      getRefreshToken_def getItem_def)

end
